theory Spec2Isabelle
  imports Complex_Main "HOL-Library.AList" "HOL-Library.Multiset"
begin

section \<open>EcoTracker: text input, the category table and the points of an activity\<close>

text \<open>
  The model follows the TypeScript sources screen by screen. JavaScript strings are
  modelled as \<open>string\<close> (lists of 8-bit characters), JavaScript numbers that hold
  integers as \<open>int\<close>: points, sums of points and millisecond timestamps are integers
  far below \<open>2^53\<close>, where a double is exact.
\<close>

subsection \<open>String.prototype.trim and parseInt\<close>

text \<open>
  White space as \<open>trim\<close> and \<open>parseInt\<close> see it, restricted to the characters an
  8-bit \<open>char\<close> can hold: TAB, LF, VT, FF, CR, SPACE and NBSP.
\<close>

definition isWhiteSpace :: "char \<Rightarrow> bool" where
  "isWhiteSpace c = (let n = (of_char c :: nat) in (9 \<le> n \<and> n \<le> 13) \<or> n = 32 \<or> n = 160)"

definition trim :: "string \<Rightarrow> string" where
  "trim s = rev (dropWhile isWhiteSpace (rev (dropWhile isWhiteSpace s)))"

definition digitValue :: "char \<Rightarrow> nat option" where
  "digitValue c =
     (let n = (of_char c :: nat) in
      if 48 \<le> n \<and> n \<le> 57 then Some (n - 48)
      else if 97 \<le> n \<and> n \<le> 122 then Some (n - 87)
      else if 65 \<le> n \<and> n \<le> 90 then Some (n - 55)
      else None)"

definition isRadixDigit :: "nat \<Rightarrow> char \<Rightarrow> bool" where
  "isRadixDigit R c = (case digitValue c of None \<Rightarrow> False | Some d \<Rightarrow> d < R)"

definition digitsValue :: "nat \<Rightarrow> string \<Rightarrow> nat" where
  "digitsValue R Z =
     foldl (\<lambda>acc c. acc * R + (case digitValue c of None \<Rightarrow> 0 | Some d \<Rightarrow> d)) 0 Z"

text \<open>
  \<open>parseInt(str)\<close> with no radix argument (ECMAScript, parseInt): leading white space
  is dropped, one sign is read, a \<open>0x\<close> or \<open>0X\<close> prefix selects radix 16, and the
  longest prefix of digits is converted; with no digit the result is NaN, here \<open>None\<close>.
  Minus zero is the integer 0. The model keeps the exact integer where JavaScript rounds
  a number beyond \<open>2^53\<close> to a double; \<open>calculatePoints\<close> takes the minimum with
  30, so for a duration that is not negative the points are the same.
\<close>

definition parseInt :: "string \<Rightarrow> int option" where
  "parseInt str =
     (let S = dropWhile isWhiteSpace str;
          sign = (if take 1 S = ''-'' then - 1 else 1 :: int);
          S1 = (if take 1 S = ''+'' \<or> take 1 S = ''-'' then drop 1 S else S);
          hex = (take 2 S1 = ''0x'' \<or> take 2 S1 = ''0X'');
          R = (if hex then 16 else 10);
          S2 = (if hex then drop 2 S1 else S1);
          Z = takeWhile (isRadixDigit R) S2
      in if Z = [] then None else Some (sign * int (digitsValue R Z)))"

subsection \<open>AddActivityScreen: the category table and calculatePoints\<close>

text \<open>The constant \<open>categories\<close> of AddActivityScreen: name and base points, in order.\<close>

definition categories :: "(string \<times> int) list" where
  "categories =
     [(''Energy Saving'', 20),
      (''Transportation'', 15),
      (''Recycling'', 10),
      (''Water Conservation'', 12),
      (''Food Waste Reduction'', 8),
      (''Other'', 5)]"

text \<open>
  \<open>calculatePoints\<close> reads the state variables \<open>category\<close> and \<open>duration\<close> of the
  form (here \<open>categoryInput\<close> and \<open>durationInput\<close>).
  \<open>parseInt(duration) || 0\<close> replaces NaN (and 0) by 0 and nothing else.
\<close>

definition calculatePoints :: "string \<Rightarrow> string \<Rightarrow> int" where
  "calculatePoints categoryInput durationInput =
     (let categoryInfo = find (\<lambda>cat. fst cat = categoryInput) categories;
          basePoints = (case categoryInfo of Some cat \<Rightarrow> snd cat | None \<Rightarrow> 5);
          durationBonus = (case parseInt durationInput of Some n \<Rightarrow> n | None \<Rightarrow> 0)
      in basePoints + min durationBonus 30)"

section \<open>The persisted store and the records\<close>

subsection \<open>Records\<close>

text \<open>
  The fields \<open>id\<close>, \<open>description\<close> and \<open>timestamp\<close> are common to the stored
  activities and photos (\<open>id\<close> is written \<open>id'\<close> and \<open>notes\<close> is written
  \<open>notes'\<close>). A timestamp is written by \<open>new Date().toISOString()\<close> and read back by
  \<open>new Date(timestamp)\<close>; the model keeps the instant itself, in milliseconds since
  the epoch.
\<close>

record entry =
  id' :: string
  description :: string
  timestamp :: int

record activity = entry +
  category :: string
  duration :: string
  notes' :: string
  points :: int

record photo = entry +
  uri :: string

subsection \<open>AsyncStorage and JSON\<close>

text \<open>
  AsyncStorage maps keys to strings. Its calls return promises that may reject; the
  model rejects every call while the medium is not \<open>available\<close>.
\<close>

datatype error = StorageError | SyntaxError

record asyncStorage =
  items :: "string \<Rightarrow> string option"
  available :: bool

definition getItem :: "asyncStorage \<Rightarrow> string \<Rightarrow> error + string option" where
  "getItem st k = (if available st then Inr (items st k) else Inl StorageError)"

definition setItem :: "asyncStorage \<Rightarrow> string \<Rightarrow> string \<Rightarrow> error + asyncStorage" where
  "setItem st k v =
     (if available st then Inr (st\<lparr>items := (items st)(k \<mapsto> v)\<rparr>) else Inl StorageError)"

definition multiRemove :: "asyncStorage \<Rightarrow> string list \<Rightarrow> error + asyncStorage" where
  "multiRemove st ks =
     (if available st then Inr (st\<lparr>items := (\<lambda>k. if k \<in> set ks then None else items st k)\<rparr>)
      else Inl StorageError)"

text \<open>
  \<open>JSON.parse\<close> and \<open>JSON.stringify\<close> are library functions: the model takes them as
  a parameter. \<open>parse\<close> gives \<open>None\<close> where \<open>JSON.parse\<close> throws; what it returns is
  typed as an array of records, as the sources annotate it (\<open>Activity[]\<close>, \<open>Photo[]\<close>).
\<close>

record 'a json =
  parse :: "string \<Rightarrow> 'a list option"
  stringify :: "'a list \<Rightarrow> string"

text \<open>
  The expression \<open>data ? JSON.parse(data) : []\<close> of every loader: \<open>null\<close> and the
  empty string are falsy.
\<close>

definition parseOrEmpty :: "'a json \<Rightarrow> string option \<Rightarrow> error + 'a list" where
  "parseOrEmpty J data =
     (case data of
        None \<Rightarrow> Inr []
      | Some s \<Rightarrow>
          if s = [] then Inr []
          else (case parse J s of None \<Rightarrow> Inl SyntaxError | Some xs \<Rightarrow> Inr xs))"

subsection \<open>Number.prototype.toString and alerts\<close>

fun digitsOf :: "nat \<Rightarrow> string" where
  "digitsOf n =
     (if n < 10 then [''0123456789'' ! n]
      else digitsOf (n div 10) @ [''0123456789'' ! (n mod 10)])"

definition toString :: "int \<Rightarrow> string" where
  "toString n = (if n < 0 then CHR ''-'' # digitsOf (nat (- n)) else digitsOf (nat n))"

text \<open>\<open>Alert.alert(title, message)\<close>; the buttons are not modelled.\<close>

datatype alert = Alert string string

section \<open>AddActivityScreen: handleSaveActivity\<close>

text \<open>
  The arguments are the JSON functions, the two clock reads (\<open>Date.now()\<close> for the id,
  \<open>new Date()\<close> for the timestamp), the four state variables of the form and the
  store; the result is the store and the alert shown. The catch block shows the same
  alert for every exception. (The success message ends with an emoji, left out.)
\<close>

definition handleSaveActivity ::
  "activity json \<Rightarrow> int \<Rightarrow> int \<Rightarrow> string \<Rightarrow> string \<Rightarrow> string \<Rightarrow> string \<Rightarrow> asyncStorage
     \<Rightarrow> asyncStorage \<times> alert" where
  "handleSaveActivity J dateNow newDate descriptionInput categoryInput durationInput notesInput st =
     (if trim descriptionInput = [] \<or> categoryInput = []
      then (st, Alert ''Error'' ''Please fill in description and category'')
      else
        (case getItem st ''activities'' of
           Inl e \<Rightarrow> (st, Alert ''Error'' ''Failed to save activity'')
         | Inr existingData \<Rightarrow>
             (case parseOrEmpty J existingData of
                Inl e \<Rightarrow> (st, Alert ''Error'' ''Failed to save activity'')
              | Inr activities \<Rightarrow>
                  (let newActivity =
                         \<lparr>id' = toString dateNow,
                          description = trim descriptionInput,
                          timestamp = newDate,
                          category = categoryInput,
                          duration = trim durationInput,
                          notes' = trim notesInput,
                          points = calculatePoints categoryInput durationInput\<rparr>
                   in case setItem st ''activities'' (stringify J (activities @ [newActivity])) of
                        Inl e \<Rightarrow> (st, Alert ''Error'' ''Failed to save activity'')
                      | Inr st' \<Rightarrow>
                          (st', Alert ''Success!''
                                  (''Activity saved! You earned '' @ toString (points newActivity)
                                     @ '' points! ''))))))"

section \<open>Array.prototype.sort and dates\<close>

text \<open>
  \<open>xs.sort(cmp)\<close>: ECMAScript requires the sort to be stable. The model is the stable
  insertion sort: \<open>x\<close> goes before the first \<open>y\<close> with \<open>cmp x y \<le> 0\<close>.
\<close>

fun insertBy :: "('a \<Rightarrow> 'a \<Rightarrow> int) \<Rightarrow> 'a \<Rightarrow> 'a list \<Rightarrow> 'a list" where
  "insertBy cmp x [] = [x]"
| "insertBy cmp x (y # ys) = (if cmp x y \<le> 0 then x # y # ys else y # insertBy cmp x ys)"

definition arraySort :: "('a \<Rightarrow> 'a \<Rightarrow> int) \<Rightarrow> 'a list \<Rightarrow> 'a list" where
  "arraySort cmp xs = foldr (insertBy cmp) xs []"

text \<open>
  The comparator of the three screens:
  \<open>(a, b) => new Date(b.timestamp).getTime() - new Date(a.timestamp).getTime()\<close>.
\<close>

definition newestFirst :: "'a entry_scheme \<Rightarrow> 'a entry_scheme \<Rightarrow> int" where
  "newestFirst a b = timestamp b - timestamp a"

text \<open>\<open>Array.from(new Set(xs))\<close>: the distinct values, each where it first occurs.\<close>

definition uniqueValues :: "'a list \<Rightarrow> 'a list" where
  "uniqueValues xs = foldl (\<lambda>seen x. if x \<in> set seen then seen else seen @ [x]) [] xs"

text \<open>
  The time zone of the device is a parameter of the model, in the form in which
  ECMAScript reads it: the offset of local time from UTC, in milliseconds, at a UTC
  instant (\<open>LocalTZA(t, true)\<close>) and at a local time value (\<open>LocalTZA(t, false)\<close>), so
  that the offset may change with the instant, as under daylight saving.
  \<open>LocalTime\<close> and \<open>UTC\<close> are the two conversions of the standard.
\<close>

definition msPerDay :: int where
  "msPerDay = 86400000"

record timeZone =
  offsetAtUTC :: "int \<Rightarrow> int"
  offsetAtLocal :: "int \<Rightarrow> int"

definition LocalTime :: "timeZone \<Rightarrow> int \<Rightarrow> int" where
  "LocalTime tz t = t + offsetAtUTC tz t"

definition UTC :: "timeZone \<Rightarrow> int \<Rightarrow> int" where
  "UTC tz t = t - offsetAtLocal tz t"

text \<open>
  \<open>toDateString()\<close> names the local calendar day of an instant; the model uses the
  number of that day, counted in local time. \<open>d.setDate(d.getDate() - i)\<close> takes the
  local time of \<open>d\<close>, goes back \<open>i\<close> calendar days at the same time of day and converts
  the result to an instant.
\<close>

definition toDateString :: "timeZone \<Rightarrow> int \<Rightarrow> int" where
  "toDateString tz t = LocalTime tz t div msPerDay"

definition daysBefore :: "timeZone \<Rightarrow> int \<Rightarrow> nat \<Rightarrow> int" where
  "daysBefore tz t i = UTC tz (LocalTime tz t - int i * msPerDay)"

text \<open>\<open>Math.round(x)\<close>: the integer nearest to \<open>x\<close>, a half going up.\<close>

definition Math_round :: "rat \<Rightarrow> int" where
  "Math_round x = \<lfloor>x + 1 / 2\<rfloor>"

section \<open>StatsScreen\<close>

record stats =
  totalPoints :: int
  totalActivities :: nat
  averageDaily :: int
  bestCategory :: string
  currentStreak :: nat

text \<open>
  The state of the screen: \<open>stats\<close>, \<open>activities\<close> and \<open>categoryStats\<close> (an object
  used as a dictionary: the association list keeps the order in which the keys were
  added, which is the order of \<open>Object.keys\<close> for names that are not array indices).
\<close>

record statsScreen =
  stats :: stats
  activities :: "activity list"
  categoryStats :: "(string \<times> int) list"

definition initialStatsScreen :: statsScreen where
  "initialStatsScreen =
     \<lparr>stats = \<lparr>totalPoints = 0, totalActivities = 0, averageDaily = 0,
                bestCategory = ''None'', currentStreak = 0\<rparr>,
      activities = [],
      categoryStats = []\<rparr>"

subsection \<open>calculateStreak\<close>

text \<open>
  The loop \<open>for (let i = 0; i < 30; i++)\<close> with its \<open>break\<close>; \<open>today\<close> is the instant
  read by \<open>new Date()\<close>.
\<close>

function streakLoop :: "timeZone \<Rightarrow> int list \<Rightarrow> int \<Rightarrow> nat \<Rightarrow> nat \<Rightarrow> nat" where
  "streakLoop tz uniqueDates today i streak =
     (if i < 30 then
        (let checkDate = daysBefore tz today i;
             dateString = toDateString tz checkDate
         in if dateString \<in> set uniqueDates
            then streakLoop tz uniqueDates today (i + 1) (streak + 1)
            else if i > 0 then streak
            else streakLoop tz uniqueDates today (i + 1) streak)
      else streak)"
  by pat_completeness auto
termination
  by (relation "measure (\<lambda>(tz, uniqueDates, today, i, streak). 30 - i)") auto

definition calculateStreak :: "timeZone \<Rightarrow> int \<Rightarrow> activity list \<Rightarrow> nat" where
  "calculateStreak tz today activityList =
     (if length activityList = 0 then 0
      else
        (let uniqueDates =
               arraySort (\<lambda>a b. UTC tz (b * msPerDay) - UTC tz (a * msPerDay))
                 (uniqueValues (map (\<lambda>a. toDateString tz (timestamp a)) activityList))
         in streakLoop tz uniqueDates today 0 0))"

subsection \<open>loadStatsData\<close>

text \<open>\<open>xs.reduce((sum, activity) => sum + activity.points, 0)\<close>\<close>

definition sumPoints :: "activity list \<Rightarrow> int" where
  "sumPoints xs = foldl (\<lambda>s a. s + points a) 0 xs"

text \<open>
  The \<open>forEach\<close> that fills \<open>categories\<close>:
  \<open>categories[c] = (categories[c] || 0) + activity.points\<close>. A key that is present
  keeps its place, a new key is added last. Category names are taken to be ordinary
  property names, as the six names of the table are: not an array index (which
  \<open>Object.keys\<close> lists first) and not a name that every object inherits.
\<close>

definition categoryBreakdown :: "activity list \<Rightarrow> (string \<times> int) list" where
  "categoryBreakdown activityList =
     foldl (\<lambda>cats a.
              AList.update (category a)
                ((case map_of cats (category a) of None \<Rightarrow> 0 | Some v \<Rightarrow> v) + points a) cats)
       [] activityList"

text \<open>
  \<open>x > y\<close> on two lookups: with \<open>undefined\<close> on either side the comparison is false.
\<close>

definition jsGreater :: "int option \<Rightarrow> int option \<Rightarrow> bool" where
  "jsGreater x y =
     (case x of None \<Rightarrow> False | Some u \<Rightarrow> (case y of None \<Rightarrow> False | Some v \<Rightarrow> v < u))"

text \<open>
  \<open>Object.keys(categories).reduce((a, b) => categories[a] > categories[b] ? a : b, 'None')\<close>
\<close>

definition findBestCategory :: "(string \<times> int) list \<Rightarrow> string" where
  "findBestCategory cats =
     foldl (\<lambda>a b. if jsGreater (map_of cats a) (map_of cats b) then a else b)
       ''None'' (map fst cats)"

text \<open>The average over the last seven days, lines 78 to 85.\<close>

definition recentAverage :: "timeZone \<Rightarrow> int \<Rightarrow> activity list \<Rightarrow> int" where
  "recentAverage tz now activityList =
     (let sevenDaysAgo = daysBefore tz now 7;
          recentActivities = filter (\<lambda>a. sevenDaysAgo \<le> timestamp a) activityList;
          recentPoints = sumPoints recentActivities
      in Math_round (of_int recentPoints / 7))"

text \<open>
  \<open>loadStatsData\<close>: the store and the screen before, the screen after and what
  \<open>console.error\<close> logged. \<open>now\<close> is the instant of the call.
\<close>

definition loadStatsData ::
  "activity json \<Rightarrow> timeZone \<Rightarrow> int \<Rightarrow> asyncStorage \<Rightarrow> statsScreen
     \<Rightarrow> statsScreen \<times> (string \<times> error) option" where
  "loadStatsData J tz now st scr =
     (case getItem st ''activities'' of
        Inl e \<Rightarrow> (scr, Some (''Error loading stats:'', e))
      | Inr activitiesData \<Rightarrow>
          (case parseOrEmpty J activitiesData of
             Inl e \<Rightarrow> (scr, Some (''Error loading stats:'', e))
           | Inr activityList \<Rightarrow>
               (let scr1 = scr\<lparr>activities := activityList\<rparr>
                in if length activityList = 0 then (scr1, None)
                   else
                     (let cats = categoryBreakdown activityList;
                          scr2 = scr1\<lparr>categoryStats := cats\<rparr>
                      in (scr2\<lparr>stats :=
                            \<lparr>totalPoints = sumPoints activityList,
                             totalActivities = length activityList,
                             averageDaily = recentAverage tz now activityList,
                             bestCategory = findBestCategory cats,
                             currentStreak = calculateStreak tz now activityList\<rparr>\<rparr>,
                          None)))))"

subsection \<open>clearAllData\<close>

text \<open>
  The confirmation dialog has two buttons; \<open>Clear All\<close> removes both keys, calls
  \<open>loadStatsData\<close> and shows an alert. The result is the store, the screen and the
  alert, if any.
\<close>

datatype choice = Cancel | ClearAll

definition clearAllData ::
  "activity json \<Rightarrow> timeZone \<Rightarrow> int \<Rightarrow> choice \<Rightarrow> asyncStorage \<Rightarrow> statsScreen
     \<Rightarrow> asyncStorage \<times> statsScreen \<times> alert option" where
  "clearAllData J tz now pressed st scr =
     (case pressed of
        Cancel \<Rightarrow> (st, scr, None)
      | ClearAll \<Rightarrow>
          (case multiRemove st [''activities'', ''photos''] of
             Inl e \<Rightarrow> (st, scr, Some (Alert ''Error'' ''Failed to clear data''))
           | Inr st' \<Rightarrow>
               (st', fst (loadStatsData J tz now st' scr),
                Some (Alert ''Success'' ''All data has been cleared''))))"

section \<open>PhotoScreen\<close>

text \<open>
  The state of the screen is the list \<open>photos\<close>. \<open>loadPhotos\<close> gives the new list and
  what \<open>console.error\<close> logged.
\<close>

definition loadPhotos ::
  "photo json \<Rightarrow> asyncStorage \<Rightarrow> photo list \<Rightarrow> photo list \<times> (string \<times> error) option" where
  "loadPhotos J st photos =
     (case getItem st ''photos'' of
        Inl e \<Rightarrow> (photos, Some (''Error loading photos:'', e))
      | Inr photosData \<Rightarrow>
          (case parseOrEmpty J photosData of
             Inl e \<Rightarrow> (photos, Some (''Error loading photos:'', e))
           | Inr photosList \<Rightarrow> (arraySort newestFirst photosList, None)))"

text \<open>
  \<open>savePhoto(photoUri, description)\<close>: \<open>description || 'Eco-friendly activity'\<close> takes
  the placeholder for the empty string only. The list is written to the store before it
  is sorted for display. (The success message ends with an emoji, left out.)
\<close>

definition savePhoto ::
  "photo json \<Rightarrow> int \<Rightarrow> int \<Rightarrow> string \<Rightarrow> string \<Rightarrow> asyncStorage \<Rightarrow> photo list
     \<Rightarrow> asyncStorage \<times> photo list \<times> alert" where
  "savePhoto J dateNow newDate photoUri descriptionInput st photos =
     (let newPhoto =
            \<lparr>id' = toString dateNow,
             description =
               (if descriptionInput = [] then ''Eco-friendly activity'' else descriptionInput),
             timestamp = newDate,
             uri = photoUri\<rparr>
      in case getItem st ''photos'' of
           Inl e \<Rightarrow> (st, photos, Alert ''Error'' ''Failed to save photo'')
         | Inr existingPhotos \<Rightarrow>
             (case parseOrEmpty J existingPhotos of
                Inl e \<Rightarrow> (st, photos, Alert ''Error'' ''Failed to save photo'')
              | Inr photosList \<Rightarrow>
                  (case setItem st ''photos'' (stringify J (photosList @ [newPhoto])) of
                     Inl e \<Rightarrow> (st, photos, Alert ''Error'' ''Failed to save photo'')
                   | Inr st' \<Rightarrow>
                       (st', arraySort newestFirst (photosList @ [newPhoto]),
                        Alert ''Success!'' ''Photo saved successfully! ''))))"

text \<open>
  The button of the caption dialog: the text of the input field is passed on as it is.
\<close>

definition handleSavePhotoWithDescription ::
  "photo json \<Rightarrow> int \<Rightarrow> int \<Rightarrow> string \<Rightarrow> string \<Rightarrow> asyncStorage \<Rightarrow> photo list
     \<Rightarrow> asyncStorage \<times> photo list \<times> alert option" where
  "handleSavePhotoWithDescription J dateNow newDate newPhotoUri photoDescription st photos =
     (if newPhotoUri = [] then (st, photos, None)
      else
        (case savePhoto J dateNow newDate newPhotoUri photoDescription st photos of
           (st', photos', a) \<Rightarrow> (st', photos', Some a)))"

section \<open>HomeScreen\<close>

text \<open>The state variables \<open>totalPoints\<close>, \<open>todayPoints\<close> and \<open>recentActivities\<close>.\<close>

record homeScreen =
  homeTotalPoints :: int
  todayPoints :: int
  recentActivities :: "activity list"

definition loadData ::
  "activity json \<Rightarrow> timeZone \<Rightarrow> int \<Rightarrow> asyncStorage \<Rightarrow> homeScreen
     \<Rightarrow> homeScreen \<times> (string \<times> error) option" where
  "loadData J tz now st scr =
     (case getItem st ''activities'' of
        Inl e \<Rightarrow> (scr, Some (''Error loading data:'', e))
      | Inr activitiesData \<Rightarrow>
          (case parseOrEmpty J activitiesData of
             Inl e \<Rightarrow> (scr, Some (''Error loading data:'', e))
           | Inr activityList \<Rightarrow>
               (let total = sumPoints activityList;
                    today = toDateString tz now;
                    todayActivities =
                      filter (\<lambda>a. toDateString tz (timestamp a) = today) activityList;
                    todayTotal = sumPoints todayActivities;
                    recent = take 5 (arraySort newestFirst activityList)
                in (\<lparr>homeTotalPoints = total, todayPoints = todayTotal,
                     recentActivities = recent\<rparr>, None))))"

section \<open>Reference definitions and example data\<close>

text \<open>
  The definitions of this section are not taken from the sources. Those of the first
  group restate what the specification says, for comparison with the code; the others
  are data for the examples.
\<close>

text \<open>The set of calendar days with at least one activity (specification, 4.4 item 6).\<close>

definition activeDays :: "timeZone \<Rightarrow> activity list \<Rightarrow> int set" where
  "activeDays tz acts = (\<lambda>a. toDateString tz (timestamp a)) ` set acts"

text \<open>
  The streak in the specification's words: the walk starts today when today is active
  and yesterday otherwise, counts the consecutive active days, stops at the first day
  that is not active and never looks at a day 30 or more days back.
\<close>

definition currentStreakDays :: "int set \<Rightarrow> int \<Rightarrow> nat" where
  "currentStreakDays days today =
     (let start = (if today \<in> days then 0 else 1)
      in length (takeWhile (\<lambda>i. today - int i \<in> days) [start..<30]))"

text \<open>
  The base points of a category (unknown names count as the lowest tier) and the
  duration text read as an integer, a failed parse counting as 0 (specification, 4.2).
\<close>

definition categoryBase :: "string \<Rightarrow> int" where
  "categoryBase c = (case map_of categories c of Some p \<Rightarrow> p | None \<Rightarrow> 5)"

definition parsedDuration :: "string \<Rightarrow> int" where
  "parsedDuration str = (case parseInt str of Some n \<Rightarrow> n | None \<Rightarrow> 0)"

text \<open>
  The points summed per category (specification, 4.4 item 3), and the points of the
  records whose timestamp lies in the seven days that end at \<open>now\<close> (4.4 item 5):
  from the same local time seven calendar days earlier up to \<open>now\<close>.
\<close>

definition categoryTotal :: "activity list \<Rightarrow> string \<Rightarrow> int" where
  "categoryTotal acts k = sum_list (map points (filter (\<lambda>a. category a = k) acts))"

definition trailingWindowPoints :: "timeZone \<Rightarrow> int \<Rightarrow> activity list \<Rightarrow> int" where
  "trailingWindowPoints tz now acts =
     sum_list (map points
       (filter (\<lambda>a. daysBefore tz now 7 \<le> timestamp a \<and> timestamp a \<le> now) acts))"

text \<open>
  \<open>r\<close> is the last of the keys \<open>ks\<close> whose weight is maximal: no key weighs more, and
  every key behind \<open>r\<close> weighs less.
\<close>

definition lastMaximal :: "('k \<Rightarrow> int) \<Rightarrow> 'k list \<Rightarrow> 'k \<Rightarrow> bool" where
  "lastMaximal w ks r =
     (\<exists>pre post. ks = pre @ r # post
        \<and> (\<forall>k\<in>set pre. w k \<le> w r) \<and> (\<forall>k\<in>set post. w k < w r))"

text \<open>
  The days that the loop of \<open>calculateStreak\<close> looks at are today and the 29 calendar
  days before it. This is so in every zone in which a local time that the clocks skip is
  read as a time of the same day (\<open>walksCalendarDays_if_same_day\<close>), as under
  daylight-saving rules that change the clocks in the night hours; it can fail only
  where a change of the clocks skips over midnight.
\<close>

definition walksCalendarDays :: "timeZone \<Rightarrow> int \<Rightarrow> bool" where
  "walksCalendarDays tz today =
     list_all (\<lambda>i. toDateString tz (daysBefore tz today i) = toDateString tz today - int i)
       [0..<30]"

text \<open>
  Zones for the examples: a constant offset, UTC, and the rules of New York for 2025:
  daylight saving from 9 March, 07:00 UTC, to 2 November, 06:00 UTC (four hours behind
  UTC in between, five hours otherwise). A local time that the clocks skip or show twice
  is read with the offset in force before the change, as ECMAScript prescribes.
\<close>

definition fixedZone :: "int \<Rightarrow> timeZone" where
  "fixedZone off = \<lparr>offsetAtUTC = (\<lambda>t. off), offsetAtLocal = (\<lambda>t. off)\<rparr>"

definition utcZone :: timeZone where
  "utcZone = fixedZone 0"

definition newYorkZone :: timeZone where
  "newYorkZone =
     \<lparr>offsetAtUTC = (\<lambda>t. if t < 1741503600000 then - 18000000
                         else if t < 1762063200000 then - 14400000 else - 18000000),
      offsetAtLocal = (\<lambda>t. if t + 14400000 < 1741503600000 then - 18000000
                           else if t + 14400000 < 1762063200000 then - 14400000
                           else - 18000000)\<rparr>"

text \<open>A stored activity with the given category, points and timestamp.\<close>

definition exampleActivity :: "string \<Rightarrow> int \<Rightarrow> int \<Rightarrow> activity" where
  "exampleActivity c p t =
     \<lparr>id' = toString t, description = ''Example'', timestamp = t,
      category = c, duration = '''', notes' = '''', points = p\<rparr>"

text \<open>An available store with no key, and a stand-in for JSON whose one text denotes \<open>xs\<close>.\<close>

definition emptyStorage :: asyncStorage where
  "emptyStorage = \<lparr>items = (\<lambda>k. None), available = True\<rparr>"

definition mockJson :: "'a list \<Rightarrow> 'a json" where
  "mockJson xs =
     \<lparr>parse = (\<lambda>s. if s = ''[stored]'' then Some xs else None),
      stringify = (\<lambda>ys. ''[stored]'')\<rparr>"

definition storageWith :: "string \<Rightarrow> string \<Rightarrow> asyncStorage" where
  "storageWith k v = \<lparr>items = (\<lambda>k'. if k' = k then Some v else None), available = True\<rparr>"

text \<open>
  An instant for the examples (in 1970, read in UTC), and the screen after it has loaded
  one activity of that day.
\<close>

definition exampleToday :: int where
  "exampleToday = 867600000"

definition loadedExampleScreen :: statsScreen where
  "loadedExampleScreen =
     fst (loadStatsData (mockJson [exampleActivity ''Energy Saving'' 20 864000100]) utcZone
            exampleToday
            (storageWith ''activities'' ''[stored]'') initialStatsScreen)"

section \<open>Properties of the text functions\<close>

lemmas text_defs =
  parseInt_def isWhiteSpace_def isRadixDigit_def digitValue_def digitsValue_def trim_def

lemma parseInt_examples:
  "parseInt ''45'' = Some 45" "parseInt ''-5'' = Some (- 5)" "parseInt '' 12abc'' = Some 12"
  "parseInt ''0x1F'' = Some 31" "parseInt ''abc'' = None" "parseInt '''' = None"
  by (simp_all add: text_defs)

section \<open>AddActivityScreen: points, validation and the store\<close>

text \<open>
  What \<open>calculatePoints\<close> computes for every input, and the record that a valid call
  appends when the store is available and the stored text parses. For a duration that
  is not negative the points are those of the specification.
\<close>

lemma calculatePoints_formula:
  "calculatePoints c du = categoryBase c + min (parsedDuration du) 30"
  by (auto simp: calculatePoints_def categoryBase_def parsedDuration_def categories_def)

lemma calculatePoints_nonnegative_duration:
  "0 \<le> parsedDuration du \<Longrightarrow>
     calculatePoints c du = categoryBase c + min (max (parsedDuration du) 0) 30"
  by (simp add: calculatePoints_formula)

lemma handleSaveActivity_success:
  assumes "trim d \<noteq> []" and "c \<noteq> []" and "available st"
    and "parseOrEmpty J (items st ''activities'') = Inr acts"
  shows "handleSaveActivity J dn nd d c du n st
         = (st\<lparr>items := (items st)(''activities'' \<mapsto> stringify J (acts @
                [\<lparr>id' = toString dn, description = trim d, timestamp = nd, category = c,
                  duration = trim du, notes' = trim n, points = calculatePoints c du\<rparr>]))\<rparr>,
            Alert ''Success!''
              (''Activity saved! You earned '' @ toString (calculatePoints c du) @ '' points! ''))"
  using assms by (simp add: handleSaveActivity_def getItem_def setItem_def)

text \<open>
  C1. The claim gives the points of a saved activity as the base points of the category
  plus \<open>min (max parsedDuration 0) 30\<close>, so that a negative duration adds 0. The code
  computes \<open>min parsedDuration 30\<close>: with category Recycling (base 10) and the duration
  text \<open>-5\<close> the record that is appended has 5 points, not 10.
\<close>

theorem handleSaveActivity_negative_duration:
  "handleSaveActivity J 1700000000000 1700000000000 ''Walk to work'' ''Recycling'' ''-5'' ''''
     emptyStorage
   = (\<lparr>items = (\<lambda>k. None)(''activities'' \<mapsto> stringify J
          [\<lparr>id' = ''1700000000000'', description = ''Walk to work'',
            timestamp = 1700000000000, category = ''Recycling'', duration = ''-5'',
            notes' = '''', points = 5\<rparr>]),
        available = True\<rparr>,
      Alert ''Success!'' ''Activity saved! You earned 5 points! '')"
  by (simp add: handleSaveActivity_def emptyStorage_def getItem_def setItem_def parseOrEmpty_def
      calculatePoints_def categories_def text_defs toString_def)

text \<open>
  C6 (amended). When the description is empty after trimming or no category is chosen,
  \<open>handleSaveActivity\<close> returns the store as it was, with one fixed alert that names
  both fields.
\<close>

theorem handleSaveActivity_validation:
  "trim d = [] \<or> c = [] \<Longrightarrow>
     handleSaveActivity J dn nd d c du n st
     = (st, Alert ''Error'' ''Please fill in description and category'')"
  by (simp add: handleSaveActivity_def)

theorem handleSaveActivity_validation_witness:
  "trim ''   '' = [] \<and>
   handleSaveActivity (mockJson []) 5 5 ''   '' ''Recycling'' ''10'' ''n'' emptyStorage
   = (emptyStorage, Alert ''Error'' ''Please fill in description and category'')"
  using handleSaveActivity_validation
          [of "''   ''" "''Recycling''" "mockJson []" 5 5 "''10''" "''n''" emptyStorage]
  by (simp add: text_defs)

text \<open>
  C6 as stated fails: a missing description (with a category) and a missing category
  (with a description) are reported by the same alert, so the report does not tell
  which field is missing.
\<close>

theorem handleSaveActivity_same_report:
  "snd (handleSaveActivity (mockJson []) 5 5 '''' ''Recycling'' ''10'' '''' emptyStorage)
   = snd (handleSaveActivity (mockJson []) 5 5 ''Walk'' '''' ''10'' '''' emptyStorage)"
  by (simp add: handleSaveActivity_def text_defs)

text \<open>
  C10. Whatever the store holds and whether or not the call succeeds, \<open>handleSaveActivity\<close>
  changes no key but \<open>activities\<close> (so the photos stay as they were), and \<open>savePhoto\<close>
  changes no key but \<open>photos\<close> (so the activities stay as they were).
\<close>

theorem save_writes_own_key_only:
  "items (fst (handleSaveActivity J dn nd d c du n st)) ''photos'' = items st ''photos''
   \<and> (\<forall>k. k \<noteq> ''activities'' \<longrightarrow>
          items (fst (handleSaveActivity J dn nd d c du n st)) k = items st k)
   \<and> items (fst (savePhoto P dn' nd' u cap st ps)) ''activities'' = items st ''activities''
   \<and> (\<forall>k. k \<noteq> ''photos'' \<longrightarrow> items (fst (savePhoto P dn' nd' u cap st ps)) k = items st k)"
  by (auto simp: handleSaveActivity_def savePhoto_def getItem_def setItem_def Let_def
      split: sum.splits if_splits)

theorem save_writes_own_key_only_witness:
  "items (fst (handleSaveActivity (mockJson []) 7 7 ''Walk'' ''Recycling'' ''10'' ''''
                 (storageWith ''photos'' ''[stored]''))) ''photos'' = Some ''[stored]''
   \<and> items (fst (handleSaveActivity (mockJson []) 7 7 ''Walk'' ''Recycling'' ''10'' ''''
                 (storageWith ''photos'' ''[stored]''))) ''activities'' = Some ''[stored]''
   \<and> items (fst (savePhoto (mockJson []) 7 7 ''file:///p.jpg'' ''Bike''
                 (storageWith ''activities'' ''[stored]'') [])) ''activities'' = Some ''[stored]''
   \<and> items (fst (savePhoto (mockJson []) 7 7 ''file:///p.jpg'' ''Bike''
                 (storageWith ''activities'' ''[stored]'') [])) ''photos'' = Some ''[stored]''"
  using save_writes_own_key_only
          [of "mockJson []" 7 7 "''Walk''" "''Recycling''" "''10''" "''''"
              "storageWith ''photos'' ''[stored]''"
              "mockJson []" 7 7 "''file:///p.jpg''" "''Bike''" "[]"]
        save_writes_own_key_only
          [of "mockJson []" 7 7 "''Walk''" "''Recycling''" "''10''" "''''"
              "storageWith ''activities'' ''[stored]''"
              "mockJson []" 7 7 "''file:///p.jpg''" "''Bike''" "[]"]
  by (simp add: storageWith_def handleSaveActivity_def savePhoto_def getItem_def setItem_def
      parseOrEmpty_def mockJson_def text_defs)

section \<open>PhotoScreen: captions and the order of the photos\<close>

text \<open>
  C8. The claim replaces a caption that is empty after trimming by the placeholder. The
  code tests the caption as it was typed: a caption of three spaces is stored as three
  spaces.
\<close>

theorem savePhoto_blank_caption:
  "savePhoto J 1700000000000 1700000000000 ''file:///p.jpg'' ''   '' emptyStorage []
   = (\<lparr>items = (\<lambda>k. None)(''photos'' \<mapsto> stringify J
          [\<lparr>id' = ''1700000000000'', description = ''   '', timestamp = 1700000000000,
            uri = ''file:///p.jpg''\<rparr>]),
        available = True\<rparr>,
      [\<lparr>id' = ''1700000000000'', description = ''   '', timestamp = 1700000000000,
        uri = ''file:///p.jpg''\<rparr>],
      Alert ''Success!'' ''Photo saved successfully! '')"
  by (simp add: savePhoto_def emptyStorage_def getItem_def setItem_def parseOrEmpty_def
      toString_def arraySort_def Let_def)

text \<open>The empty caption, and only the empty caption, is replaced.\<close>

lemma savePhoto_empty_caption:
  "savePhoto J 5 5 ''file:///p.jpg'' [] emptyStorage []
   = (\<lparr>items = (\<lambda>k. None)(''photos'' \<mapsto> stringify J
          [\<lparr>id' = ''5'', description = ''Eco-friendly activity'', timestamp = 5,
            uri = ''file:///p.jpg''\<rparr>]),
        available = True\<rparr>,
      [\<lparr>id' = ''5'', description = ''Eco-friendly activity'', timestamp = 5,
        uri = ''file:///p.jpg''\<rparr>],
      Alert ''Success!'' ''Photo saved successfully! '')"
  by (simp add: savePhoto_def emptyStorage_def getItem_def setItem_def parseOrEmpty_def
      toString_def arraySort_def Let_def)

subsection \<open>The sort of the photos\<close>

lemma insertBy_newestFirst:
  "insertBy newestFirst x ys = insort_key (\<lambda>p. - timestamp p) x ys"
  by (induction ys) (auto simp: newestFirst_def)

lemma arraySort_newestFirst:
  "arraySort newestFirst xs = sort_key (\<lambda>p. - timestamp p) xs"
  by (induction xs) (simp_all add: arraySort_def sort_key_def insertBy_newestFirst)

lemma newestFirst_sorted:
  "sorted_wrt (\<lambda>a b. timestamp b \<le> timestamp a) (arraySort newestFirst xs)"
proof -
  have "sorted (map (\<lambda>p. - timestamp p) (sort_key (\<lambda>p. - timestamp p) xs))"
    by (rule sorted_sort_key)
  then show ?thesis
    by (simp add: arraySort_newestFirst sorted_map)
qed

lemma newestFirst_stable:
  "filter (\<lambda>p. timestamp p = t) (arraySort newestFirst xs) = filter (\<lambda>p. timestamp p = t) xs"
proof -
  have "filter (\<lambda>p. - timestamp p = - t) (sort_key (\<lambda>p. - timestamp p) xs)
        = filter (\<lambda>p. - timestamp p = - t) xs"
    by (rule sort_key_stable)
  then show ?thesis by (simp add: arraySort_newestFirst)
qed

lemma newestFirst_mset: "mset (arraySort newestFirst xs) = mset xs"
  by (simp add: arraySort_newestFirst)

lemma set_insertBy: "set (insertBy cmp x ys) = insert x (set ys)"
  by (induction ys) auto

lemma set_arraySort: "set (arraySort cmp xs) = set xs"
  by (induction xs) (auto simp: arraySort_def set_insertBy)

lemma savePhoto_success:
  assumes "available st" and "parseOrEmpty J (items st ''photos'') = Inr photosList"
  shows "fst (snd (savePhoto J dn nd u cap st ps))
         = arraySort newestFirst
             (photosList @ [\<lparr>id' = toString dn,
                              description = (if cap = [] then ''Eco-friendly activity'' else cap),
                              timestamp = nd, uri = u\<rparr>])"
  using assms by (simp add: savePhoto_def getItem_def setItem_def Let_def)

lemma loadPhotos_success:
  assumes "available st" and "parseOrEmpty J (items st ''photos'') = Inr photosList"
  shows "fst (loadPhotos J st ps) = arraySort newestFirst photosList"
  using assms by (simp add: loadPhotos_def getItem_def)

text \<open>
  C9 (amended). When the store is available and the stored photos parse, the list that
  \<open>savePhoto\<close> shows (and the list that \<open>loadPhotos\<close> shows) holds exactly the stored
  photos (with the new one), newest first, and the photos with one and the same timestamp
  stand in the order in which they were inserted: the earlier one first, the new one last
  among its equals.
\<close>

theorem photos_newest_first_stable:
  assumes "available st" and "parseOrEmpty J (items st ''photos'') = Inr photosList"
  shows "sorted_wrt (\<lambda>a b. timestamp b \<le> timestamp a) (fst (snd (savePhoto J dn nd u cap st ps)))
       \<and> mset (fst (snd (savePhoto J dn nd u cap st ps)))
           = mset (photosList @ [\<lparr>id' = toString dn,
                 description = (if cap = [] then ''Eco-friendly activity'' else cap),
                 timestamp = nd, uri = u\<rparr>])
       \<and> filter (\<lambda>p. timestamp p = t) (fst (snd (savePhoto J dn nd u cap st ps)))
           = filter (\<lambda>p. timestamp p = t) (photosList @ [\<lparr>id' = toString dn,
                 description = (if cap = [] then ''Eco-friendly activity'' else cap),
                 timestamp = nd, uri = u\<rparr>])
       \<and> sorted_wrt (\<lambda>a b. timestamp b \<le> timestamp a) (fst (loadPhotos J st ps))
       \<and> mset (fst (loadPhotos J st ps)) = mset photosList
       \<and> filter (\<lambda>p. timestamp p = t) (fst (loadPhotos J st ps))
           = filter (\<lambda>p. timestamp p = t) photosList"
  unfolding savePhoto_success [OF assms] loadPhotos_success [OF assms]
  by (simp only: newestFirst_sorted newestFirst_stable newestFirst_mset simp_thms)

theorem photos_newest_first_stable_witness:
  "available (storageWith ''photos'' ''[stored]'')
   \<and> parseOrEmpty (mockJson [\<lparr>id' = ''1'', description = ''first'', timestamp = 3, uri = ''a.jpg''\<rparr>])
        (items (storageWith ''photos'' ''[stored]'') ''photos'')
      = Inr [\<lparr>id' = ''1'', description = ''first'', timestamp = 3, uri = ''a.jpg''\<rparr>]
   \<and> sorted_wrt (\<lambda>a b. timestamp b \<le> timestamp a)
        (fst (snd (savePhoto
           (mockJson [\<lparr>id' = ''1'', description = ''first'', timestamp = 3, uri = ''a.jpg''\<rparr>])
           2 5 ''b.jpg'' ''second'' (storageWith ''photos'' ''[stored]'') [])))
   \<and> fst (snd (savePhoto
           (mockJson [\<lparr>id' = ''1'', description = ''first'', timestamp = 3, uri = ''a.jpg''\<rparr>])
           2 5 ''b.jpg'' ''second'' (storageWith ''photos'' ''[stored]'') []))
      = [\<lparr>id' = ''2'', description = ''second'', timestamp = 5, uri = ''b.jpg''\<rparr>,
         \<lparr>id' = ''1'', description = ''first'', timestamp = 3, uri = ''a.jpg''\<rparr>]"
proof -
  have a: "available (storageWith ''photos'' ''[stored]'')"
    by (simp add: storageWith_def)
  have p: "parseOrEmpty (mockJson [\<lparr>id' = ''1'', description = ''first'', timestamp = 3, uri = ''a.jpg''\<rparr>])
        (items (storageWith ''photos'' ''[stored]'') ''photos'')
      = Inr [\<lparr>id' = ''1'', description = ''first'', timestamp = 3, uri = ''a.jpg''\<rparr>]"
    by (simp add: storageWith_def parseOrEmpty_def mockJson_def)
  have e: "fst (snd (savePhoto
           (mockJson [\<lparr>id' = ''1'', description = ''first'', timestamp = 3, uri = ''a.jpg''\<rparr>])
           2 5 ''b.jpg'' ''second'' (storageWith ''photos'' ''[stored]'') []))
      = [\<lparr>id' = ''2'', description = ''second'', timestamp = 5, uri = ''b.jpg''\<rparr>,
         \<lparr>id' = ''1'', description = ''first'', timestamp = 3, uri = ''a.jpg''\<rparr>]"
    by (simp add: savePhoto_def storageWith_def getItem_def setItem_def parseOrEmpty_def
        mockJson_def toString_def arraySort_def newestFirst_def)
  from photos_newest_first_stable [OF a p, of 2 5 "''b.jpg''" "''second''" "[]" 5] a p e
  show ?thesis by simp
qed

text \<open>
  C9 as stated fails: a photo saved with the timestamp of a stored photo is shown after
  it, not before it.
\<close>

theorem savePhoto_tie_keeps_insertion_order:
  "fst (snd (savePhoto
      (mockJson [\<lparr>id' = ''1'', description = ''first'', timestamp = 5, uri = ''a.jpg''\<rparr>])
      2 5 ''b.jpg'' ''second'' (storageWith ''photos'' ''[stored]'') []))
   = [\<lparr>id' = ''1'', description = ''first'', timestamp = 5, uri = ''a.jpg''\<rparr>,
      \<lparr>id' = ''2'', description = ''second'', timestamp = 5, uri = ''b.jpg''\<rparr>]"
  by (simp add: savePhoto_def storageWith_def getItem_def setItem_def parseOrEmpty_def
      mockJson_def toString_def arraySort_def newestFirst_def)

section \<open>StatsScreen: the streak\<close>

lemma set_uniqueValues_aux:
  "set (foldl (\<lambda>seen x. if x \<in> set seen then seen else seen @ [x]) acc xs) = set acc \<union> set xs"
  by (induction xs arbitrary: acc) auto

lemma set_uniqueValues: "set (uniqueValues xs) = set xs"
  by (simp add: uniqueValues_def set_uniqueValues_aux)

subsection \<open>Zones in which the loop walks through the calendar days\<close>

lemma walksCalendarDays_iff:
  "walksCalendarDays tz today
   = (\<forall>i<30. toDateString tz (daysBefore tz today i) = toDateString tz today - int i)"
  by (auto simp: walksCalendarDays_def list_all_iff)

lemma day_minus: "(L - int i * msPerDay) div msPerDay = L div msPerDay - int i"
proof -
  have "msPerDay \<noteq> 0" by (simp add: msPerDay_def)
  then have "(L + (- int i) * msPerDay) div msPerDay = L div msPerDay + (- int i)"
    using div_mult_self1 [of msPerDay L "- int i"] by simp
  then show ?thesis by simp
qed

lemma walksCalendarDays_if_same_day:
  assumes "\<And>L. LocalTime tz (UTC tz L) div msPerDay = L div msPerDay"
  shows "walksCalendarDays tz today"
  unfolding walksCalendarDays_iff
  by (simp add: toDateString_def daysBefore_def assms day_minus)

lemma fixedZone_round_trip: "LocalTime (fixedZone off) (UTC (fixedZone off) L) = L"
  by (simp add: LocalTime_def UTC_def fixedZone_def)




lemma walksCalendarDays_fixedZone: "walksCalendarDays (fixedZone off) today"
  by (rule walksCalendarDays_if_same_day) (simp add: fixedZone_round_trip)

lemma walksCalendarDays_utcZone: "walksCalendarDays utcZone today"
  unfolding utcZone_def by (rule walksCalendarDays_fixedZone)


subsection \<open>The loop\<close>

text \<open>Past the first round the loop counts the active days up to the first gap.\<close>

lemma streakLoop_from:
  "0 < i \<Longrightarrow> streakLoop tz U today i s =
     s + length (takeWhile (\<lambda>j. toDateString tz (daysBefore tz today j) \<in> set U) [i..<30])"
proof (induction tz U today i s rule: streakLoop.induct)
  case (1 tz U today i s)
  show ?case
  proof (cases "i < 30")
    case False
    then show ?thesis by simp
  next
    case True
    then have upt: "[i..<30] = i # [Suc i..<30]" by (simp add: upt_conv_Cons)
    show ?thesis
    proof (cases "toDateString tz (daysBefore tz today i) \<in> set U")
      case In: True
      have "streakLoop tz U today i s = streakLoop tz U today (i + 1) (s + 1)"
        using True In by simp
      also have "\<dots> = (s + 1)
          + length (takeWhile (\<lambda>j. toDateString tz (daysBefore tz today j) \<in> set U)
              [i + 1..<30])"
        using "1.IH"(1) [OF True refl refl] In by simp
      finally show ?thesis using In upt by simp
    next
      case Out: False
      have "streakLoop tz U today i s = s"
        using True Out "1.prems" by simp
      then show ?thesis using Out upt by simp
    qed
  qed
qed

lemma streakLoop_start:
  "streakLoop tz U today 0 0
   = length (takeWhile (\<lambda>j. toDateString tz (daysBefore tz today j) \<in> set U)
       [(if toDateString tz (daysBefore tz today 0) \<in> set U then 0 else 1)..<30])"
proof (cases "toDateString tz (daysBefore tz today 0) \<in> set U")
  case True
  have upt: "[0..<30] = 0 # [Suc 0..<30]" by (simp add: upt_conv_Cons)
  have "streakLoop tz U today 0 0 = streakLoop tz U today 1 1"
    using True by simp
  then show ?thesis
    using True upt by (simp add: streakLoop_from del: streakLoop.simps)
next
  case False
  have "streakLoop tz U today 0 0 = streakLoop tz U today 1 0"
    using False by simp
  then show ?thesis
    using False by (simp add: streakLoop_from del: streakLoop.simps)
qed

text \<open>
  In every zone: the streak counts the days that \<open>setDate\<close> reaches, from today if the
  day reached in the first round is active and from the second round otherwise.
\<close>

lemma calculateStreak_walk:
  "calculateStreak tz today acts
   = length (takeWhile (\<lambda>j. toDateString tz (daysBefore tz today j) \<in> activeDays tz acts)
       [(if toDateString tz (daysBefore tz today 0) \<in> activeDays tz acts then 0 else 1)..<30])"
proof (cases "acts = []")
  case True
  then show ?thesis
    by (simp add: calculateStreak_def activeDays_def upt_conv_Cons)
next
  case False
  then show ?thesis
    by (simp add: calculateStreak_def streakLoop_start set_arraySort set_uniqueValues
        activeDays_def del: streakLoop.simps)
qed

lemma calculateStreak_spec:
  assumes "walksCalendarDays tz today"
  shows "calculateStreak tz today acts
         = currentStreakDays (activeDays tz acts) (toDateString tz today)"
proof -
  have day: "toDateString tz (daysBefore tz today i) = toDateString tz today - int i"
    if "i < 30" for i
    using assms that by (simp add: walksCalendarDays_iff)
  have zero: "toDateString tz (daysBefore tz today 0) = toDateString tz today"
    using day [of 0] by simp
  have "takeWhile (\<lambda>j. toDateString tz (daysBefore tz today j) \<in> activeDays tz acts) [s..<30]
      = takeWhile (\<lambda>j. toDateString tz today - int j \<in> activeDays tz acts) [s..<30]" for s
    by (rule takeWhile_cong) (simp_all add: day)
  then show ?thesis
    by (simp add: calculateStreak_walk zero currentStreakDays_def)
qed







section \<open>StatsScreen: totals, categories and the best category\<close>

lemma sumPoints_aux: "foldl (\<lambda>s a. s + points a) s0 xs = s0 + sum_list (map points xs)"
  by (induction xs arbitrary: s0) auto

lemma sumPoints_sum_list: "sumPoints xs = sum_list (map points xs)"
  by (simp add: sumPoints_def sumPoints_aux)

lemma categoryTotal_absent: "k \<notin> category ` set acts \<Longrightarrow> categoryTotal acts k = 0"
  by (induction acts) (auto simp: categoryTotal_def)

lemma categoryTotal_Cons:
  "categoryTotal (a # acts) k = (if category a = k then points a else 0) + categoryTotal acts k"
  by (simp add: categoryTotal_def)

lemma breakdown_map_of_aux:
  "map_of (foldl (\<lambda>cats a. AList.update (category a)
                ((case map_of cats (category a) of None \<Rightarrow> 0 | Some v \<Rightarrow> v) + points a) cats)
            cats acts) k
   = (if k \<in> category ` set acts
      then Some ((case map_of cats k of None \<Rightarrow> 0 | Some v \<Rightarrow> v) + categoryTotal acts k)
      else map_of cats k)"
proof (induction acts arbitrary: cats)
  case Nil
  then show ?case by simp
next
  case (Cons a acts)
  let ?g = "\<lambda>cats a. AList.update (category a)
                ((case map_of cats (category a) of None \<Rightarrow> 0 | Some v \<Rightarrow> v) + points a) cats"
  have upd: "map_of (?g cats a) = (map_of cats)(category a \<mapsto>
      (case map_of cats (category a) of None \<Rightarrow> 0 | Some v \<Rightarrow> v) + points a)"
    by (simp add: update_conv')
  have "map_of (foldl ?g cats (a # acts)) k = map_of (foldl ?g (?g cats a) acts) k"
    by simp
  also have "\<dots> = (if k \<in> category ` set acts
      then Some ((case map_of (?g cats a) k of None \<Rightarrow> 0 | Some v \<Rightarrow> v) + categoryTotal acts k)
      else map_of (?g cats a) k)"
    by (rule Cons.IH)
  also have "\<dots> = (if k \<in> category ` set (a # acts)
      then Some ((case map_of cats k of None \<Rightarrow> 0 | Some v \<Rightarrow> v) + categoryTotal (a # acts) k)
      else map_of cats k)"
  proof (cases "k = category a")
    case True
    then show ?thesis
      using categoryTotal_absent [of k acts]
      by (simp add: upd categoryTotal_Cons)
  next
    case False
    then show ?thesis
      by (simp add: upd categoryTotal_Cons)
  qed
  finally show ?case .
qed

lemma breakdown_map_of:
  "map_of (categoryBreakdown acts) k
   = (if k \<in> category ` set acts then Some (categoryTotal acts k) else None)"
  by (simp add: categoryBreakdown_def breakdown_map_of_aux)

lemma breakdown_keys_aux:
  "map fst (foldl (\<lambda>cats a. AList.update (category a)
                ((case map_of cats (category a) of None \<Rightarrow> 0 | Some v \<Rightarrow> v) + points a) cats)
            cats acts)
   = foldl (\<lambda>seen x. if x \<in> set seen then seen else seen @ [x]) (map fst cats) (map category acts)"
proof (induction acts arbitrary: cats)
  case Nil
  then show ?case by simp
next
  case (Cons a acts)
  show ?case
    by (simp add: Cons.IH update_keys)
qed

lemma breakdown_keys: "map fst (categoryBreakdown acts) = uniqueValues (map category acts)"
  by (simp add: categoryBreakdown_def uniqueValues_def breakdown_keys_aux)

subsection \<open>The reduce that picks the best category\<close>

lemma lastMaximal_single: "(\<forall>k\<in>set ks. w k < w r) \<Longrightarrow> lastMaximal w (r # ks) r"
  unfolding lastMaximal_def
  by (rule exI [of _ "[]"], rule exI [of _ ks]) simp

lemma lastMaximal_Cons: "lastMaximal w ks r \<Longrightarrow> w k \<le> w r \<Longrightarrow> lastMaximal w (k # ks) r"
proof -
  assume lm: "lastMaximal w ks r" and le: "w k \<le> w r"
  from lm obtain pre post where
    ks: "ks = pre @ r # post" and pre: "\<forall>k\<in>set pre. w k \<le> w r"
    and post: "\<forall>k\<in>set post. w k < w r"
    unfolding lastMaximal_def by auto
  have "k # ks = (k # pre) @ r # post" using ks by simp
  moreover have "\<forall>k'\<in>set (k # pre). w k' \<le> w r" using pre le by simp
  ultimately show ?thesis
    unfolding lastMaximal_def using post by (intro exI conjI)
qed

lemma lastMaximal_mem: "lastMaximal w ks r \<Longrightarrow> r \<in> set ks"
  unfolding lastMaximal_def by auto

lemma lastMaximal_max: "lastMaximal w ks r \<Longrightarrow> k \<in> set ks \<Longrightarrow> w k \<le> w r"
  unfolding lastMaximal_def by fastforce

text \<open>
  The accumulator of the reduce either is still the start value, which then is greater
  than every key read, or it is the last maximal key read so far.
\<close>

lemma best_fold:
  assumes vw: "\<forall>k\<in>set ks. v k = Some (w k)"
    and f: "f = (\<lambda>a b. if jsGreater (v a) (v b) then a else b)"
  shows "(foldl f a ks = a \<and> (\<forall>k\<in>set ks. jsGreater (v a) (v k)))
       \<or> (lastMaximal w ks (foldl f a ks) \<and> \<not> jsGreater (v a) (v (foldl f a ks)))"
  using vw
proof (induction ks arbitrary: a)
  case Nil
  then show ?case by simp
next
  case (Cons k ks)
  have vk: "v k = Some (w k)" and vks: "\<forall>k\<in>set ks. v k = Some (w k)"
    using Cons.prems by simp_all
  show ?case
  proof (cases "jsGreater (v a) (v k)")
    case True
    then obtain x where va: "v a = Some x" and xk: "w k < x"
      using vk by (auto simp: jsGreater_def split: option.splits)
    define r where "r = foldl f a ks"
    have step: "foldl f a (k # ks) = r" using True by (simp add: r_def f)
    have ih: "(r = a \<and> (\<forall>k\<in>set ks. jsGreater (v a) (v k)))
       \<or> (lastMaximal w ks r \<and> \<not> jsGreater (v a) (v r))"
      unfolding r_def by (rule Cons.IH [OF vks])
    show ?thesis
    proof (rule disjE [OF ih])
      assume "r = a \<and> (\<forall>k\<in>set ks. jsGreater (v a) (v k))"
      then show ?thesis using True step by simp
    next
      assume m: "lastMaximal w ks r \<and> \<not> jsGreater (v a) (v r)"
      then have "r \<in> set ks" using lastMaximal_mem [of w ks r] by simp
      then have "v r = Some (w r)" using vks by simp
      then have "x \<le> w r" using m va by (simp add: jsGreater_def)
      then have "w k \<le> w r" using xk by simp
      then have "lastMaximal w (k # ks) r" using m by (simp add: lastMaximal_Cons)
      then show ?thesis using m step by simp
    qed
  next
    case False
    define r where "r = foldl f k ks"
    have step: "foldl f a (k # ks) = r" using False by (simp add: r_def f)
    have ih: "(r = k \<and> (\<forall>k'\<in>set ks. jsGreater (v k) (v k')))
       \<or> (lastMaximal w ks r \<and> \<not> jsGreater (v k) (v r))"
      unfolding r_def by (rule Cons.IH [OF vks])
    show ?thesis
    proof (rule disjE [OF ih])
      assume s: "r = k \<and> (\<forall>k'\<in>set ks. jsGreater (v k) (v k'))"
      have "\<forall>k'\<in>set ks. w k' < w k"
      proof
        fix k' assume k': "k' \<in> set ks"
        then have "jsGreater (v k) (v k')" using s by simp
        moreover have "v k' = Some (w k')" using vks k' by simp
        ultimately show "w k' < w k" using vk by (simp add: jsGreater_def)
      qed
      then have "lastMaximal w (k # ks) k" by (rule lastMaximal_single)
      then show ?thesis using s False step by simp
    next
      assume m: "lastMaximal w ks r \<and> \<not> jsGreater (v k) (v r)"
      then have "r \<in> set ks" using lastMaximal_mem [of w ks r] by simp
      then have vr: "v r = Some (w r)" using vks by simp
      then have kr: "w k \<le> w r" using m vk by (simp add: jsGreater_def)
      have nj: "\<not> jsGreater (v a) (v r)"
      proof (cases "v a")
        case None
        then show ?thesis by (simp add: jsGreater_def)
      next
        case (Some x)
        then have "x \<le> w k" using False vk by (simp add: jsGreater_def)
        then show ?thesis using Some vr kr by (simp add: jsGreater_def)
      qed
      have "lastMaximal w (k # ks) r" using m kr by (simp add: lastMaximal_Cons)
      then show ?thesis using nj step by simp
    qed
  qed
qed

lemma findBestCategory_lastMaximal:
  assumes "acts \<noteq> []"
  shows "lastMaximal (categoryTotal acts) (uniqueValues (map category acts))
           (findBestCategory (categoryBreakdown acts))"
proof -
  define ks where "ks = uniqueValues (map category acts)"
  define v where "v = map_of (categoryBreakdown acts)"
  define f where "f = (\<lambda>a b. if jsGreater (v a) (v b) then a else b)"
  have set_ks: "set ks = category ` set acts"
    by (simp add: ks_def set_uniqueValues)
  have vw: "\<forall>k\<in>set ks. v k = Some (categoryTotal acts k)"
    by (simp add: set_ks v_def breakdown_map_of)
  have best: "findBestCategory (categoryBreakdown acts) = foldl f ''None'' ks"
    by (simp add: findBestCategory_def f_def v_def ks_def breakdown_keys)
  have "\<not> (\<forall>k\<in>set ks. jsGreater (v ''None'') (v k))"
  proof
    assume all: "\<forall>k\<in>set ks. jsGreater (v ''None'') (v k)"
    from assms obtain a where "a \<in> set acts" by (cases acts) auto
    then have "category a \<in> set ks" by (simp add: set_ks)
    then have "jsGreater (v ''None'') (v (category a))" using all by simp
    then have "v ''None'' \<noteq> None" by (auto simp: jsGreater_def split: option.splits)
    then have "''None'' \<in> set ks"
      by (simp add: v_def breakdown_map_of set_ks split: if_splits)
    then have "jsGreater (v ''None'') (v ''None'')" using all by simp
    then show False by (simp add: jsGreater_def split: option.splits)
  qed
  with best_fold [OF vw f_def, of "''None''"]
  have "lastMaximal (categoryTotal acts) ks (foldl f ''None'' ks)" by blast
  then show ?thesis by (simp add: best ks_def)
qed

lemma loadStatsData_nonempty:
  assumes "available st" and "parseOrEmpty J (items st ''activities'') = Inr acts"
    and "acts \<noteq> []"
  shows "loadStatsData J tz now st scr
         = (scr\<lparr>activities := acts, categoryStats := categoryBreakdown acts,
                stats := \<lparr>totalPoints = sumPoints acts,
                          totalActivities = length acts,
                          averageDaily = recentAverage tz now acts,
                          bestCategory = findBestCategory (categoryBreakdown acts),
                          currentStreak = calculateStreak tz now acts\<rparr>\<rparr>, None)"
  using assms by (simp add: loadStatsData_def getItem_def Let_def)

lemma loadStatsData_empty:
  assumes "available st" and "parseOrEmpty J (items st ''activities'') = Inr []"
  shows "loadStatsData J tz now st scr = (scr\<lparr>activities := []\<rparr>, None)"
  using assms by (simp add: loadStatsData_def getItem_def)

lemma tie_example_eval:
  "bestCategory (stats (fst (loadStatsData
      (mockJson [exampleActivity ''Energy Saving'' 20 1000, exampleActivity ''Recycling'' 20 2000])
      utcZone 3000 (storageWith ''activities'' ''[stored]'') initialStatsScreen))) = ''Recycling''"
proof -
  have a: "available (storageWith ''activities'' ''[stored]'')" by (simp add: storageWith_def)
  have p: "parseOrEmpty
      (mockJson [exampleActivity ''Energy Saving'' 20 1000, exampleActivity ''Recycling'' 20 2000])
      (items (storageWith ''activities'' ''[stored]'') ''activities'')
      = Inr [exampleActivity ''Energy Saving'' 20 1000, exampleActivity ''Recycling'' 20 2000]"
    by (simp add: storageWith_def parseOrEmpty_def mockJson_def)
  show ?thesis
    by (simp add: loadStatsData_nonempty [OF a p])
       (simp add: findBestCategory_def categoryBreakdown_def exampleActivity_def jsGreater_def)
qed

lemma tie_example_reversed:
  "bestCategory (stats (fst (loadStatsData
      (mockJson [exampleActivity ''Recycling'' 20 1000, exampleActivity ''Energy Saving'' 20 2000])
      utcZone 3000 (storageWith ''activities'' ''[stored]'') initialStatsScreen))) = ''Energy Saving''"
proof -
  have a: "available (storageWith ''activities'' ''[stored]'')" by (simp add: storageWith_def)
  have p: "parseOrEmpty
      (mockJson [exampleActivity ''Recycling'' 20 1000, exampleActivity ''Energy Saving'' 20 2000])
      (items (storageWith ''activities'' ''[stored]'') ''activities'')
      = Inr [exampleActivity ''Recycling'' 20 1000, exampleActivity ''Energy Saving'' 20 2000]"
    by (simp add: storageWith_def parseOrEmpty_def mockJson_def)
  show ?thesis
    by (simp add: loadStatsData_nonempty [OF a p])
       (simp add: findBestCategory_def categoryBreakdown_def exampleActivity_def jsGreater_def)
qed

text \<open>
  C3 (amended). For a non-empty collection (store available, stored text parsed),
  \<open>bestCategory\<close> is a category of some record whose summed points are maximal; among the
  categories of maximal sum it is the one that comes last when the categories are listed
  in the order of their first records, so it depends on the order of the records and
  not on the Category Table. With no records a fresh screen shows \<open>None\<close>.
\<close>

theorem bestCategory_last_maximal:
  assumes "available st" and "parseOrEmpty J (items st ''activities'') = Inr acts"
  shows "(acts \<noteq> [] \<longrightarrow>
            lastMaximal (categoryTotal acts) (uniqueValues (map category acts))
              (bestCategory (stats (fst (loadStatsData J tz now st scr))))
          \<and> bestCategory (stats (fst (loadStatsData J tz now st scr))) \<in> category ` set acts
          \<and> (\<forall>a\<in>set acts. categoryTotal acts (category a)
                \<le> categoryTotal acts (bestCategory (stats (fst (loadStatsData J tz now st scr))))))
       \<and> (acts = [] \<longrightarrow>
            bestCategory (stats (fst (loadStatsData J tz now st initialStatsScreen))) = ''None'')"
proof (cases "acts = []")
  case True
  then show ?thesis
    using assms by (simp add: loadStatsData_empty initialStatsScreen_def)
next
  case False
  have best: "bestCategory (stats (fst (loadStatsData J tz now st scr)))
      = findBestCategory (categoryBreakdown acts)"
    by (simp add: loadStatsData_nonempty [OF assms False])
  have lm: "lastMaximal (categoryTotal acts) (uniqueValues (map category acts))
      (findBestCategory (categoryBreakdown acts))"
    by (rule findBestCategory_lastMaximal [OF False])
  have mem: "findBestCategory (categoryBreakdown acts) \<in> category ` set acts"
    using lastMaximal_mem [OF lm] by (simp add: set_uniqueValues)
  have mx: "\<forall>a\<in>set acts. categoryTotal acts (category a)
      \<le> categoryTotal acts (findBestCategory (categoryBreakdown acts))"
  proof
    fix a assume "a \<in> set acts"
    then have "category a \<in> set (uniqueValues (map category acts))"
      by (simp add: set_uniqueValues)
    then show "categoryTotal acts (category a)
      \<le> categoryTotal acts (findBestCategory (categoryBreakdown acts))"
      by (rule lastMaximal_max [OF lm])
  qed
  from False lm mem mx show ?thesis by (simp add: best)
qed

theorem bestCategory_last_maximal_witness:
  "available (storageWith ''activities'' ''[stored]'')
   \<and> parseOrEmpty
        (mockJson [exampleActivity ''Energy Saving'' 20 1000, exampleActivity ''Recycling'' 20 2000])
        (items (storageWith ''activities'' ''[stored]'') ''activities'')
      = Inr [exampleActivity ''Energy Saving'' 20 1000, exampleActivity ''Recycling'' 20 2000]
   \<and> lastMaximal
        (categoryTotal [exampleActivity ''Energy Saving'' 20 1000, exampleActivity ''Recycling'' 20 2000])
        (uniqueValues (map category
           [exampleActivity ''Energy Saving'' 20 1000, exampleActivity ''Recycling'' 20 2000]))
        ''Recycling''
   \<and> uniqueValues (map category
           [exampleActivity ''Energy Saving'' 20 1000, exampleActivity ''Recycling'' 20 2000])
      = [''Energy Saving'', ''Recycling'']"
proof -
  have a: "available (storageWith ''activities'' ''[stored]'')" by (simp add: storageWith_def)
  have p: "parseOrEmpty
      (mockJson [exampleActivity ''Energy Saving'' 20 1000, exampleActivity ''Recycling'' 20 2000])
      (items (storageWith ''activities'' ''[stored]'') ''activities'')
      = Inr [exampleActivity ''Energy Saving'' 20 1000, exampleActivity ''Recycling'' 20 2000]"
    by (simp add: storageWith_def parseOrEmpty_def mockJson_def)
  have u: "uniqueValues (map category
           [exampleActivity ''Energy Saving'' 20 1000, exampleActivity ''Recycling'' 20 2000])
      = [''Energy Saving'', ''Recycling'']"
    by (simp add: uniqueValues_def exampleActivity_def)
  from bestCategory_last_maximal [OF a p, of utcZone 3000 initialStatsScreen] tie_example_eval a p u
  show ?thesis by simp
qed

text \<open>
  C3 as stated fails: Energy Saving and Recycling tie with 20 points each, and the code
  picks Recycling when the Energy Saving record comes first and Energy Saving when the
  Recycling record comes first; the claim picks Energy Saving, the first in the Category
  Table, for either order.
\<close>

theorem bestCategory_tie_depends_on_record_order:
  "bestCategory (stats (fst (loadStatsData
      (mockJson [exampleActivity ''Energy Saving'' 20 1000, exampleActivity ''Recycling'' 20 2000])
      utcZone 3000 (storageWith ''activities'' ''[stored]'') initialStatsScreen))) = ''Recycling''
   \<and> bestCategory (stats (fst (loadStatsData
      (mockJson [exampleActivity ''Recycling'' 20 1000, exampleActivity ''Energy Saving'' 20 2000])
      utcZone 3000 (storageWith ''activities'' ''[stored]'') initialStatsScreen))) = ''Energy Saving''
   \<and> categoryTotal
        [exampleActivity ''Energy Saving'' 20 1000, exampleActivity ''Recycling'' 20 2000]
        ''Energy Saving''
      = categoryTotal
        [exampleActivity ''Energy Saving'' 20 1000, exampleActivity ''Recycling'' 20 2000]
        ''Recycling''"
  using tie_example_eval tie_example_reversed
  by (simp add: categoryTotal_def exampleActivity_def)

section \<open>StatsScreen: the average of the last seven days\<close>

lemma Math_round_div7: "Math_round (of_int S / 7) = (2 * S + 7) div 14"
proof -
  have "(of_int S / 7 + 1 / 2 :: rat) = of_int (2 * S + 7) / of_int 14"
    by simp
  then show ?thesis
    unfolding Math_round_def by (simp only: floor_divide_of_int_eq)
qed

lemma Math_round_numeral_div7:
  "Math_round (numeral n / 7) = (2 * numeral n + 7) div 14"
  using Math_round_div7 [of "numeral n"] by simp

lemma Math_round_nearest:
  "of_int (Math_round x) - 1 / 2 \<le> x \<and> x < of_int (Math_round x) + 1 / 2"
proof -
  have "of_int \<lfloor>x + 1 / 2\<rfloor> \<le> x + 1 / 2" by (rule of_int_floor_le)
  moreover have "x + 1 / 2 < of_int \<lfloor>x + 1 / 2\<rfloor> + 1" by linarith
  ultimately show ?thesis unfolding Math_round_def by linarith
qed

lemma recentAverage_eq:
  "recentAverage tz now acts
   = Math_round (of_int (sum_list (map points
        (filter (\<lambda>a. daysBefore tz now 7 \<le> timestamp a) acts))) / 7)"
  by (simp add: recentAverage_def sumPoints_sum_list Let_def)

lemma window_no_future:
  "\<forall>a\<in>set acts. timestamp a \<le> now \<Longrightarrow>
     filter (\<lambda>a. cutoff \<le> timestamp a \<and> timestamp a \<le> now) acts
     = filter (\<lambda>a. cutoff \<le> timestamp a) acts"
  by (rule filter_cong) auto

text \<open>With a constant offset the cutoff is 168 hours before \<open>now\<close>.\<close>

lemma daysBefore_fixedZone: "daysBefore (fixedZone off) t i = t - int i * msPerDay"
  by (simp add: daysBefore_def LocalTime_def UTC_def fixedZone_def)

lemma future_example_eval:
  "averageDaily (stats (fst (loadStatsData
      (mockJson [exampleActivity ''Other'' 7 1000000000001]) utcZone 1000000000000
      (storageWith ''activities'' ''[stored]'') initialStatsScreen))) = 1"
proof -
  have a: "available (storageWith ''activities'' ''[stored]'')" by (simp add: storageWith_def)
  have p: "parseOrEmpty (mockJson [exampleActivity ''Other'' 7 1000000000001])
      (items (storageWith ''activities'' ''[stored]'') ''activities'')
      = Inr [exampleActivity ''Other'' 7 1000000000001]"
    by (simp add: storageWith_def parseOrEmpty_def mockJson_def)
  have "averageDaily (stats (fst (loadStatsData
      (mockJson [exampleActivity ''Other'' 7 1000000000001]) utcZone 1000000000000
      (storageWith ''activities'' ''[stored]'') initialStatsScreen)))
    = Math_round (of_int 7 / 7)"
    by (simp add: loadStatsData_nonempty [OF a p] recentAverage_eq)
       (simp add: exampleActivity_def utcZone_def daysBefore_fixedZone msPerDay_def)
  then show ?thesis by (simp only: Math_round_div7)
qed

text \<open>
  C4 (amended). For a non-empty collection (store available, stored text parsed),
  \<open>averageDaily\<close> is the sum of the points of the records whose timestamp is not
  earlier than the cutoff, divided by 7 and rounded to the nearest integer, a half going
  up. The cutoff is the instant of the same local time seven calendar days before
  \<open>now\<close>, as \<open>setDate\<close> gives it in the zone of the device. Records dated after
  \<open>now\<close> are counted too; when there is none, the sum is that of the seven days ending
  at \<open>now\<close>. With no records a fresh screen shows 0. Sums of 35, 36 and 38 give 5, and
  39 gives 6.
\<close>

theorem averageDaily_recent:
  assumes "available st" and "parseOrEmpty J (items st ''activities'') = Inr acts"
  shows "(acts \<noteq> [] \<longrightarrow>
            averageDaily (stats (fst (loadStatsData J tz now st scr)))
              = Math_round (of_int (sum_list (map points
                   (filter (\<lambda>a. daysBefore tz now 7 \<le> timestamp a) acts))) / 7)
          \<and> ((\<forall>a\<in>set acts. timestamp a \<le> now) \<longrightarrow>
                averageDaily (stats (fst (loadStatsData J tz now st scr)))
                  = Math_round (of_int (trailingWindowPoints tz now acts) / 7)))
       \<and> (acts = [] \<longrightarrow>
            averageDaily (stats (fst (loadStatsData J tz now st initialStatsScreen))) = 0)
       \<and> of_int (Math_round (of_int S / 7)) - 1 / 2 \<le> (of_int S / 7 :: rat)
       \<and> (of_int S / 7 :: rat) < of_int (Math_round (of_int S / 7)) + 1 / 2
       \<and> Math_round (of_int S / 7) = (2 * S + 7) div 14
       \<and> Math_round (35 / 7) = 5 \<and> Math_round (36 / 7) = 5 \<and> Math_round (38 / 7) = 5
       \<and> Math_round (39 / 7) = 6"
proof -
  have nonempty: "averageDaily (stats (fst (loadStatsData J tz now st scr)))
      = Math_round (of_int (sum_list (map points
           (filter (\<lambda>a. daysBefore tz now 7 \<le> timestamp a) acts))) / 7)" if "acts \<noteq> []"
    by (simp add: loadStatsData_nonempty [OF assms that] recentAverage_eq)
  have window: "averageDaily (stats (fst (loadStatsData J tz now st scr)))
      = Math_round (of_int (trailingWindowPoints tz now acts) / 7)"
    if "acts \<noteq> []" and "\<forall>a\<in>set acts. timestamp a \<le> now"
    using nonempty [OF that(1)] by (simp add: trailingWindowPoints_def window_no_future [OF that(2)])
  have empty: "averageDaily (stats (fst (loadStatsData J tz now st initialStatsScreen))) = 0"
    if "acts = []"
    using assms that by (simp add: loadStatsData_empty initialStatsScreen_def)
  have ex: "Math_round (35 / 7) = 5" "Math_round (36 / 7) = 5" "Math_round (38 / 7) = 5"
    "Math_round (39 / 7) = 6"
    using Math_round_div7 [of 35] Math_round_div7 [of 36] Math_round_div7 [of 38]
      Math_round_div7 [of 39] by simp_all
  from nonempty window empty ex Math_round_nearest [of "of_int S / 7"] Math_round_div7 [of S]
  show ?thesis by blast
qed

text \<open>
  The witness is a device in New York at noon of 3 November 2025. Seven calendar days
  earlier daylight saving was still on, so the cutoff is noon of 27 October in daylight
  time, 1761580800000, an hour before the instant 168 hours back. The record of 20
  points lies in that hour and is counted, with the record of 19 points; the record of
  50 points is older than the cutoff.
\<close>

theorem averageDaily_recent_witness:
  "available (storageWith ''activities'' ''[stored]'')
   \<and> parseOrEmpty
        (mockJson [exampleActivity ''Energy Saving'' 20 1761582600000,
                   exampleActivity ''Transportation'' 19 1762057800000,
                   exampleActivity ''Other'' 50 1761580000000])
        (items (storageWith ''activities'' ''[stored]'') ''activities'')
      = Inr [exampleActivity ''Energy Saving'' 20 1761582600000,
             exampleActivity ''Transportation'' 19 1762057800000,
             exampleActivity ''Other'' 50 1761580000000]
   \<and> daysBefore newYorkZone 1762189200000 7 = 1761580800000
   \<and> trailingWindowPoints newYorkZone 1762189200000
        [exampleActivity ''Energy Saving'' 20 1761582600000,
         exampleActivity ''Transportation'' 19 1762057800000,
         exampleActivity ''Other'' 50 1761580000000] = 39
   \<and> averageDaily (stats (fst (loadStatsData
        (mockJson [exampleActivity ''Energy Saving'' 20 1761582600000,
                   exampleActivity ''Transportation'' 19 1762057800000,
                   exampleActivity ''Other'' 50 1761580000000])
        newYorkZone 1762189200000 (storageWith ''activities'' ''[stored]'')
        initialStatsScreen))) = 6"
proof -
  let ?acts = "[exampleActivity ''Energy Saving'' 20 1761582600000,
                exampleActivity ''Transportation'' 19 1762057800000,
                exampleActivity ''Other'' 50 1761580000000]"
  have a: "available (storageWith ''activities'' ''[stored]'')" by (simp add: storageWith_def)
  have p: "parseOrEmpty (mockJson ?acts) (items (storageWith ''activities'' ''[stored]'') ''activities'')
      = Inr ?acts"
    by (simp add: storageWith_def parseOrEmpty_def mockJson_def)
  have c: "daysBefore newYorkZone 1762189200000 7 = 1761580800000"
    by (simp add: daysBefore_def LocalTime_def UTC_def newYorkZone_def msPerDay_def)
  have w: "trailingWindowPoints newYorkZone 1762189200000 ?acts = 39"
    by (simp add: trailingWindowPoints_def c exampleActivity_def)
  have nf: "\<forall>a\<in>set ?acts. timestamp a \<le> 1762189200000"
    by (simp add: exampleActivity_def)
  have ne: "?acts \<noteq> []" by simp
  from averageDaily_recent [OF a p, of newYorkZone 1762189200000 initialStatsScreen 39] ne nf
  have "averageDaily (stats (fst (loadStatsData (mockJson ?acts) newYorkZone 1762189200000
          (storageWith ''activities'' ''[stored]'') initialStatsScreen)))
        = Math_round (of_int (trailingWindowPoints newYorkZone 1762189200000 ?acts) / 7)"
    and "Math_round (39 / 7) = 6"
    by blast+
  then show ?thesis using a p c w by simp
qed

text \<open>
  C4 as stated fails: a record dated one millisecond after \<open>now\<close> lies outside the
  seven days ending at \<open>now\<close>, whose points sum to 0, and the code counts its 7 points.
\<close>

theorem averageDaily_counts_later_records:
  "averageDaily (stats (fst (loadStatsData
      (mockJson [exampleActivity ''Other'' 7 1000000000001]) utcZone 1000000000000
      (storageWith ''activities'' ''[stored]'') initialStatsScreen))) = 1
   \<and> Math_round (of_int (trailingWindowPoints utcZone 1000000000000
          [exampleActivity ''Other'' 7 1000000000001]) / 7) = 0"
proof -
  have w: "trailingWindowPoints utcZone 1000000000000
      [exampleActivity ''Other'' 7 1000000000001] = 0"
    by (simp add: trailingWindowPoints_def exampleActivity_def)
  have "Math_round (of_int (trailingWindowPoints utcZone 1000000000000
          [exampleActivity ''Other'' 7 1000000000001]) / 7) = 0"
    unfolding w Math_round_div7 by simp
  then show ?thesis using future_example_eval by simp
qed

section \<open>StatsScreen: clearAllData\<close>

text \<open>
  \<open>Clear All\<close> on an available store removes both keys and empties the list of
  activities. Afterwards both collections load as empty, and a valid activity is saved as
  the only record.
\<close>

lemma clearAllData_success:
  assumes "available st"
  shows "clearAllData J tz now ClearAll st scr
         = (st\<lparr>items := (\<lambda>k. if k \<in> set [''activities'', ''photos''] then None else items st k)\<rparr>,
            scr\<lparr>activities := []\<rparr>,
            Some (Alert ''Success'' ''All data has been cleared''))"
  using assms
  by (simp add: clearAllData_def multiRemove_def loadStatsData_def getItem_def parseOrEmpty_def)

lemma after_clearAllData:
  assumes "available st" and "st' = fst (clearAllData J tz now ClearAll st scr)"
  shows "loadPhotos P st' ps = ([], None)"
    and "loadStatsData J tz now' st' scr' = (scr'\<lparr>activities := []\<rparr>, None)"
    and "trim d \<noteq> [] \<Longrightarrow> c \<noteq> [] \<Longrightarrow>
         fst (handleSaveActivity J dn nd d c du n st')
         = st'\<lparr>items := (items st')(''activities'' \<mapsto> stringify J
                [\<lparr>id' = toString dn, description = trim d, timestamp = nd, category = c,
                  duration = trim du, notes' = trim n, points = calculatePoints c du\<rparr>])\<rparr>"
proof -
  have av: "available st'" and ia: "items st' ''activities'' = None"
    and ip: "items st' ''photos'' = None"
    using assms by (simp_all add: clearAllData_success)
  show "loadPhotos P st' ps = ([], None)"
    using av ip by (simp add: loadPhotos_def getItem_def parseOrEmpty_def arraySort_def)
  show "loadStatsData J tz now' st' scr' = (scr'\<lparr>activities := []\<rparr>, None)"
    using av ia by (simp add: loadStatsData_def getItem_def parseOrEmpty_def)
  have p: "parseOrEmpty J (items st' ''activities'') = Inr []"
    using ia by (simp add: parseOrEmpty_def)
  show "fst (handleSaveActivity J dn nd d c du n st')
         = st'\<lparr>items := (items st')(''activities'' \<mapsto> stringify J
                [\<lparr>id' = toString dn, description = trim d, timestamp = nd, category = c,
                  duration = trim du, notes' = trim n, points = calculatePoints c du\<rparr>])\<rparr>"
    if "trim d \<noteq> []" "c \<noteq> []"
    using handleSaveActivity_success [OF that av p] by simp
qed

text \<open>
  Whatever is pressed and whether or not the store is available, \<open>clearAllData\<close> leaves
  \<open>stats\<close> as it was: \<open>loadStatsData\<close> returns before \<open>setStats\<close> when the list is
  empty.
\<close>

lemma clearAllData_keeps_stats:
  "stats (fst (snd (clearAllData J tz now pressed st scr))) = stats scr"
  by (cases pressed)
     (simp_all add: clearAllData_def multiRemove_def loadStatsData_def getItem_def
        parseOrEmpty_def split: sum.splits)

lemma loadedExampleScreen_eq:
  "loadedExampleScreen
   = \<lparr>stats = \<lparr>totalPoints = 20, totalActivities = 1, averageDaily = 3,
               bestCategory = ''Energy Saving'', currentStreak = 1\<rparr>,
      activities = [exampleActivity ''Energy Saving'' 20 864000100],
      categoryStats = [(''Energy Saving'', 20)]\<rparr>"
proof -
  have a: "available (storageWith ''activities'' ''[stored]'')" by (simp add: storageWith_def)
  have p: "parseOrEmpty (mockJson [exampleActivity ''Energy Saving'' 20 864000100])
      (items (storageWith ''activities'' ''[stored]'') ''activities'')
      = Inr [exampleActivity ''Energy Saving'' 20 864000100]"
    by (simp add: storageWith_def parseOrEmpty_def mockJson_def)
  have s: "calculateStreak utcZone exampleToday
      [exampleActivity ''Energy Saving'' 20 864000100] = 1"
    unfolding calculateStreak_spec [OF walksCalendarDays_utcZone]
    by (simp add: activeDays_def currentStreakDays_def exampleToday_def exampleActivity_def
        toDateString_def LocalTime_def utcZone_def fixedZone_def msPerDay_def upt_conv_Cons)
  have r: "recentAverage utcZone exampleToday
      [exampleActivity ''Energy Saving'' 20 864000100] = 3"
    by (simp add: recentAverage_eq Math_round_numeral_div7 exampleToday_def exampleActivity_def
        utcZone_def daysBefore_fixedZone msPerDay_def)
  have c: "categoryBreakdown [exampleActivity ''Energy Saving'' 20 864000100]
      = [(''Energy Saving'', 20)]"
    by (simp add: categoryBreakdown_def exampleActivity_def)
  have b: "findBestCategory [(''Energy Saving'', 20)] = ''Energy Saving''"
    by (simp add: findBestCategory_def jsGreater_def)
  have t: "sumPoints [exampleActivity ''Energy Saving'' 20 864000100] = 20"
    by (simp add: sumPoints_def exampleActivity_def)
  have ne: "[exampleActivity ''Energy Saving'' 20 864000100] \<noteq> []" by simp
  show ?thesis
    unfolding loadedExampleScreen_def loadStatsData_nonempty [OF a p ne]
    by (simp add: s r c b t initialStatsScreen_def)
qed

text \<open>
  C5. The claim has the statistics recomputed to their base values after a reset. On a
  screen that shows one activity of 20 points, \<open>Clear All\<close> empties the store and the
  list of activities, and the statistics and the category breakdown stay as they were.
\<close>

theorem clearAllData_leaves_old_stats:
  "clearAllData (mockJson [exampleActivity ''Energy Saving'' 20 864000100]) utcZone exampleToday
     ClearAll
     (storageWith ''activities'' ''[stored]'') loadedExampleScreen
   = (\<lparr>items = (\<lambda>k. None), available = True\<rparr>,
      \<lparr>stats = \<lparr>totalPoints = 20, totalActivities = 1, averageDaily = 3,
                bestCategory = ''Energy Saving'', currentStreak = 1\<rparr>,
       activities = [],
       categoryStats = [(''Energy Saving'', 20)]\<rparr>,
      Some (Alert ''Success'' ''All data has been cleared''))"
  unfolding loadedExampleScreen_eq
  by (auto simp: clearAllData_def multiRemove_def storageWith_def loadStatsData_def getItem_def
      parseOrEmpty_def)

section \<open>The loaders on absent, empty and malformed stored text\<close>

lemma parseOrEmpty_absent:
  "data = None \<or> data = Some [] \<Longrightarrow> parseOrEmpty J data = Inr []"
  by (auto simp: parseOrEmpty_def)

lemma parseOrEmpty_malformed:
  "s \<noteq> [] \<Longrightarrow> parse J s = None \<Longrightarrow> parseOrEmpty J (Some s) = Inl SyntaxError"
  by (simp add: parseOrEmpty_def)

text \<open>
  C7 (amended). With the store available, a loader that finds its key absent or holding
  the empty string sets its list to the empty list; a loader that finds text that does
  not parse returns normally, logs the error and leaves the state of its screen as it
  was (so the list is empty only if it was empty before).
\<close>

theorem loaders_absent_or_malformed:
  assumes "available st"
  shows "(items st ''activities'' = None \<or> items st ''activities'' = Some [] \<longrightarrow>
            loadStatsData J tz now st scr = (scr\<lparr>activities := []\<rparr>, None)
          \<and> loadData J tz now st hs
              = (\<lparr>homeTotalPoints = 0, todayPoints = 0, recentActivities = []\<rparr>, None))
       \<and> (items st ''photos'' = None \<or> items st ''photos'' = Some [] \<longrightarrow>
            loadPhotos P st ps = ([], None))
       \<and> (items st ''activities'' = Some s \<and> s \<noteq> [] \<and> parse J s = None \<longrightarrow>
            loadStatsData J tz now st scr = (scr, Some (''Error loading stats:'', SyntaxError))
          \<and> loadData J tz now st hs = (hs, Some (''Error loading data:'', SyntaxError)))
       \<and> (items st ''photos'' = Some s \<and> s \<noteq> [] \<and> parse P s = None \<longrightarrow>
            loadPhotos P st ps = (ps, Some (''Error loading photos:'', SyntaxError)))"
proof -
  have absent_a: "loadStatsData J tz now st scr = (scr\<lparr>activities := []\<rparr>, None)
      \<and> loadData J tz now st hs
          = (\<lparr>homeTotalPoints = 0, todayPoints = 0, recentActivities = []\<rparr>, None)"
    if "items st ''activities'' = None \<or> items st ''activities'' = Some []"
    using assms parseOrEmpty_absent [OF that, of J]
    by (simp add: loadStatsData_def loadData_def getItem_def sumPoints_def arraySort_def)
  have absent_p: "loadPhotos P st ps = ([], None)"
    if "items st ''photos'' = None \<or> items st ''photos'' = Some []"
    using assms parseOrEmpty_absent [OF that, of P]
    by (simp add: loadPhotos_def getItem_def arraySort_def)
  have bad_a: "loadStatsData J tz now st scr = (scr, Some (''Error loading stats:'', SyntaxError))
      \<and> loadData J tz now st hs = (hs, Some (''Error loading data:'', SyntaxError))"
    if "items st ''activities'' = Some s" "s \<noteq> []" "parse J s = None"
    using assms that parseOrEmpty_malformed [OF that(2,3)]
    by (simp add: loadStatsData_def loadData_def getItem_def)
  have bad_p: "loadPhotos P st ps = (ps, Some (''Error loading photos:'', SyntaxError))"
    if "items st ''photos'' = Some s" "s \<noteq> []" "parse P s = None"
    using assms that parseOrEmpty_malformed [OF that(2,3)]
    by (simp add: loadPhotos_def getItem_def)
  from absent_a absent_p bad_a bad_p show ?thesis by blast
qed

theorem loaders_absent_or_malformed_witness:
  "available (storageWith ''activities'' ''{oops'')
   \<and> items (storageWith ''activities'' ''{oops'') ''photos'' = None
   \<and> parse (mockJson [exampleActivity ''Other'' 5 1000]) ''{oops'' = None
   \<and> loadPhotos (mockJson []) (storageWith ''activities'' ''{oops'')
        [\<lparr>id' = ''1'', description = ''first'', timestamp = 3, uri = ''a.jpg''\<rparr>] = ([], None)
   \<and> loadStatsData (mockJson [exampleActivity ''Other'' 5 1000]) utcZone 3000
        (storageWith ''activities'' ''{oops'') initialStatsScreen
      = (initialStatsScreen, Some (''Error loading stats:'', SyntaxError))
   \<and> loadStatsData (mockJson [exampleActivity ''Other'' 5 1000]) utcZone 3000
        emptyStorage loadedExampleScreen
      = (loadedExampleScreen\<lparr>activities := []\<rparr>, None)"
proof -
  have a: "available (storageWith ''activities'' ''{oops'')" by (simp add: storageWith_def)
  have e: "available emptyStorage" by (simp add: emptyStorage_def)
  have i: "items (storageWith ''activities'' ''{oops'') ''photos'' = None"
    "items (storageWith ''activities'' ''{oops'') ''activities'' = Some ''{oops''"
    "items emptyStorage ''activities'' = None"
    by (simp_all add: storageWith_def emptyStorage_def)
  have q: "parse (mockJson [exampleActivity ''Other'' 5 1000]) ''{oops'' = None"
    by (simp add: mockJson_def)
  from loaders_absent_or_malformed [OF a, of "mockJson [exampleActivity ''Other'' 5 1000]" utcZone 3000
         initialStatsScreen "\<lparr>homeTotalPoints = 0, todayPoints = 0, recentActivities = []\<rparr>" "mockJson []"
         "[\<lparr>id' = ''1'', description = ''first'', timestamp = 3, uri = ''a.jpg''\<rparr>]" "''{oops''"]
       loaders_absent_or_malformed [OF e, of "mockJson [exampleActivity ''Other'' 5 1000]" utcZone 3000
         loadedExampleScreen "\<lparr>homeTotalPoints = 0, todayPoints = 0, recentActivities = []\<rparr>" "mockJson []" "[]" "''{oops''"]
       a i q
  show ?thesis by simp
qed

text \<open>
  C7 as stated fails: on malformed stored text the list that the screen showed before,
  here one activity, is still there after the load.
\<close>

theorem loadStatsData_malformed_keeps_list:
  "activities (fst (loadStatsData (mockJson [exampleActivity ''Other'' 5 1000]) utcZone 3000
      (storageWith ''activities'' ''{oops'')
      (initialStatsScreen\<lparr>activities := [exampleActivity ''Other'' 5 1000]\<rparr>)))
   = [exampleActivity ''Other'' 5 1000]
   \<and> parse (mockJson [exampleActivity ''Other'' 5 1000]) ''{oops'' = None"
  by (simp add: loadStatsData_def getItem_def storageWith_def parseOrEmpty_def mockJson_def)

end
